theory Spec2Isabelle
  imports Main
begin

section \<open>Routing types of the frontend plugin API\<close>

text \<open>
  The file \<^verbatim>\<open>packages/frontend-plugin-api/src/routing/types.ts\<close> declares types and one
  constant. A type of the file is modelled as a term of \<open>ty\<close>, a generic type alias as a function
  from its type arguments to \<open>ty\<close>, and the meaning of a type as the set of JavaScript values
  that inhabit it (\<open>has_type\<close>). The constant \<^verbatim>\<open>routeRefType\<close> is modelled as a
  computation on the state of the running process.
\<close>

subsection \<open>JavaScript values\<close>

text \<open>
  An object carries its identity (two objects with equal properties are still two objects) and
  its own properties in insertion order. A \<^verbatim>\<open>Set\<close> is the list of its elements in
  insertion order; a well-formed one holds no element twice. A symbol is its identity.
\<close>

datatype val =
    VUndefined
  | VNull
  | VBool bool
  | VNum int
  | VStr string
  | VSym nat
  | VArr "val list"
  | VSet "val list"
  | VObj nat "(string \<times> val) list"

subsection \<open>TypeScript types\<close>

text \<open>
  The type constructors the file uses. A property of an object type is its name, whether it is
  optional (\<^verbatim>\<open>name?: T\<close>) and its type. \<open>TNamed\<close> refers to a type by name: an
  interface of this file, or a type the file takes from elsewhere
  (\<^verbatim>\<open>React.ReactNode\<close>, \<^verbatim>\<open>RouteRef\<close>).
\<close>

datatype ty =
    TAny
  | TNever
  | TUndefined
  | TBoolean
  | TBoolLit bool
  | TNumber
  | TString
  | TSymbol
  | TLit string
  | TUnion "ty list"
  | TTuple "ty list"
  | TReadonly ty
  | TArray ty
  | TSet ty
  | TObject "(string \<times> bool \<times> ty) list"
  | TIndexSig ty
  | TNamed string

text \<open>
  \<^verbatim>\<open>interface BackstageRouteObject { caseSensitive: boolean;
  children?: BackstageRouteObject[]; element: React.ReactNode; path: string;
  routeRefs: Set<RouteRef> }\<close>
\<close>

definition BackstageRouteObject :: "(string \<times> bool \<times> ty) list" where
  "BackstageRouteObject =
     [(''caseSensitive'', False, TBoolean),
      (''children'', True, TArray (TNamed ''BackstageRouteObject'')),
      (''element'', False, TNamed ''React.ReactNode''),
      (''path'', False, TString),
      (''routeRefs'', False, TSet (TNamed ''RouteRef''))]"

text \<open>The interfaces the file declares, by name.\<close>

definition interface :: "string \<Rightarrow> (string \<times> bool \<times> ty) list option" where
  "interface n = (if n = ''BackstageRouteObject'' then Some BackstageRouteObject else None)"

subsection \<open>Inhabitation\<close>

lemma size_map_of:
  "map_of fs k = Some x \<Longrightarrow> size x < Suc (size_list (size_prod (\<lambda>_. 0) size) fs)"
  by (induction fs) (auto split: if_splits)

lemma size_mem: "x \<in> set xs \<Longrightarrow> size x < Suc (size_list size xs)"
  by (induction xs) auto

lemma size_zip_left: "(x, t) \<in> set (zip xs ts) \<Longrightarrow> size x < Suc (size_list size xs)"
  by (auto dest: set_zip_leftD size_mem)

lemma size_snd_mem:
  "(k, x) \<in> set fs \<Longrightarrow> size x < Suc (size_list (size_prod (\<lambda>_. 0) size) fs)"
  by (induction fs) auto

text \<open>
  \<open>has_type ext v t\<close>: the value \<open>v\<close> is assignable to the type \<open>t\<close>. The types the file
  does not declare are the parameter \<open>ext\<close>: \<open>ext n v\<close> says that \<open>v\<close> is a value of the
  type named \<open>n\<close>. A required property must be present; an optional one may be absent or
  hold \<^verbatim>\<open>undefined\<close>. Properties the type does not name are allowed. A value that
  is not an object (a string, a number, an array, ...) has none of the properties the file
  names; it has an object type only when the type names no property: every value other than
  \<^verbatim>\<open>undefined\<close> and \<^verbatim>\<open>null\<close> has the type \<^verbatim>\<open>{}\<close>.
\<close>

function has_type :: "(string \<Rightarrow> val \<Rightarrow> bool) \<Rightarrow> val \<Rightarrow> ty \<Rightarrow> bool"
  and has_props :: "(string \<Rightarrow> val \<Rightarrow> bool) \<Rightarrow> val \<Rightarrow> (string \<times> bool \<times> ty) list \<Rightarrow> bool"
where
  "has_type ext v TAny = True"
| "has_type ext v TNever = False"
| "has_type ext v TUndefined = (v = VUndefined)"
| "has_type ext v TBoolean = (case v of VBool b \<Rightarrow> True | _ \<Rightarrow> False)"
| "has_type ext v (TBoolLit b) = (v = VBool b)"
| "has_type ext v TNumber = (case v of VNum n \<Rightarrow> True | _ \<Rightarrow> False)"
| "has_type ext v TString = (case v of VStr s \<Rightarrow> True | _ \<Rightarrow> False)"
| "has_type ext v TSymbol = (case v of VSym n \<Rightarrow> True | _ \<Rightarrow> False)"
| "has_type ext v (TLit s) = (v = VStr s)"
| "has_type ext v (TUnion ts) = list_ex (has_type ext v) ts"
| "has_type ext v (TTuple ts) =
     (case v of
        VArr xs \<Rightarrow> length xs = length ts \<and> list_all (\<lambda>(x, t). has_type ext x t) (zip xs ts)
      | _ \<Rightarrow> False)"
| "has_type ext v (TReadonly t) = has_type ext v t"
| "has_type ext v (TArray t) =
     (case v of VArr xs \<Rightarrow> list_all (\<lambda>x. has_type ext x t) xs | _ \<Rightarrow> False)"
| "has_type ext v (TSet t) =
     (case v of VSet xs \<Rightarrow> distinct xs \<and> list_all (\<lambda>x. has_type ext x t) xs | _ \<Rightarrow> False)"
| "has_type ext v (TObject ds) = has_props ext v ds"
| "has_type ext v (TIndexSig t) =
     (case v of VObj i fs \<Rightarrow> list_all (\<lambda>(k, x). has_type ext x t) fs | _ \<Rightarrow> False)"
| "has_type ext v (TNamed n) =
     (case interface n of Some ds \<Rightarrow> has_props ext v ds | None \<Rightarrow> ext n v)"
| "has_props ext v ds =
     (case v of
        VObj i fs \<Rightarrow>
          list_all (\<lambda>(k, opt, t).
            case map_of fs k of
              None \<Rightarrow> opt
            | Some x \<Rightarrow> (opt \<and> x = VUndefined) \<or> has_type ext x t) ds
      | VUndefined \<Rightarrow> False
      | VNull \<Rightarrow> False
      | _ \<Rightarrow> ds = [])"
  by pat_completeness auto
termination
  apply (relation "measures
    [\<lambda>x. case x of Inl (e, v, t) \<Rightarrow> size v | Inr (e, v, ds) \<Rightarrow> size v,
     \<lambda>x. case x of Inl (e, v, t) \<Rightarrow> size t | Inr (e, v, ds) \<Rightarrow> 0,
     \<lambda>x. case x of Inl (e, v, t) \<Rightarrow> 1 | Inr (e, v, ds) \<Rightarrow> 0]")
  apply (auto dest: size_map_of size_mem size_snd_mem size_zip_left)
  done

subsection \<open>Route parameter shapes\<close>

text \<open>
  \<^verbatim>\<open>type AnyRouteParams = { [param in string]: string } | undefined\<close>.
  A type argument constrained by it is modelled as one of: \<^verbatim>\<open>any\<close> (the default of
  \<^verbatim>\<open>ExternalRouteRef\<close>), \<^verbatim>\<open>undefined\<close>, an object type that declares its
  parameters by name (each with a type assignable to \<^verbatim>\<open>string\<close>), or the mapping
  over all strings itself. A union of these, and \<^verbatim>\<open>never\<close> as the union of none,
  is the list of its members; it is modelled where the file applies a distributive conditional
  to it (\<open>RouteFunc_union\<close>).
\<close>

datatype pty = PString | PNever

datatype AnyRouteParams =
    Any
  | Undefined
  | Shape "(string \<times> pty) list"
  | Dynamic

text \<open>
  Modelled from the spec: the file uses \<^verbatim>\<open>AnyParams\<close> as the constraint of
  \<^verbatim>\<open>RouteFunc\<close> and \<^verbatim>\<open>ExternalRouteRef\<close> and does not declare it. The
  spec's route parameter shape is "a mapping from parameter name (text) to parameter value
  (text), or undefined when a route has no parameters", which is \<^verbatim>\<open>AnyRouteParams\<close>.
\<close>

type_synonym AnyParams = AnyRouteParams

fun ty_of_pty :: "pty \<Rightarrow> ty" where
  "ty_of_pty PString = TString"
| "ty_of_pty PNever = TNever"

text \<open>A shape as a type of values.\<close>

fun ty_of :: "AnyRouteParams \<Rightarrow> ty" where
  "ty_of Any = TAny"
| "ty_of Undefined = TUndefined"
| "ty_of (Shape ps) = TObject (map (\<lambda>(k, t). (k, False, ty_of_pty t)) ps)"
| "ty_of Dynamic = TIndexSig TString"

text \<open>A union type from its members: \<^verbatim>\<open>never\<close> is dropped, a member is kept once.\<close>

definition union_of :: "ty list \<Rightarrow> ty" where
  "union_of ts =
     (case remdups (filter (\<lambda>t. t \<noteq> TNever) ts) of
        [] \<Rightarrow> TNever
      | [t] \<Rightarrow> t
      | t # u # us \<Rightarrow> TUnion (t # u # us))"

text \<open>\<^verbatim>\<open>keyof Params\<close>\<close>

fun keyof :: "AnyRouteParams \<Rightarrow> ty" where
  "keyof Any = TUnion [TString, TNumber, TSymbol]"
| "keyof Undefined = TNever"
| "keyof (Shape ps) = union_of (map (\<lambda>(k, t). TLit k) ps)"
| "keyof Dynamic = TUnion [TString, TNumber]"

text \<open>\<^verbatim>\<open>Params[keyof Params]\<close>: the type of the values over all keys.\<close>

fun index_keyof :: "AnyRouteParams \<Rightarrow> ty" where
  "index_keyof Any = TAny"
| "index_keyof Undefined = TNever"
| "index_keyof (Shape ps) = union_of (map (\<lambda>(k, t). ty_of_pty t) ps)"
| "index_keyof Dynamic = TString"

text \<open>
  A conditional type \<^verbatim>\<open>C extends E ? A : B\<close> takes the first branch, the second, or, when
  the checked type is \<^verbatim>\<open>any\<close>, the union of both.
\<close>

datatype verdict = Yes | No | Both

fun conditional :: "verdict \<Rightarrow> ty \<Rightarrow> ty \<Rightarrow> ty" where
  "conditional Yes a b = a"
| "conditional No a b = b"
| "conditional Both a b = union_of [a, b]"

text \<open>\<^verbatim>\<open>Params extends undefined\<close>\<close>

fun extends_undefined :: "AnyRouteParams \<Rightarrow> verdict" where
  "extends_undefined Any = Both"
| "extends_undefined Undefined = Yes"
| "extends_undefined (Shape ps) = No"
| "extends_undefined Dynamic = No"

text \<open>\<^verbatim>\<open>T extends never\<close>, for a checked type \<open>T\<close> that is not a type parameter.\<close>

fun extends_never :: "ty \<Rightarrow> verdict" where
  "extends_never TAny = Both"
| "extends_never TNever = Yes"
| "extends_never t = No"

subsection \<open>\<^verbatim>\<open>RouteFunc\<close>\<close>

text \<open>A function type \<^verbatim>\<open>(...[params]: rest) => returns\<close>.\<close>

datatype func_ty = Func (rest: ty) (returns: ty)

text \<open>
  \<^verbatim>\<open>type RouteFunc<Params extends AnyParams> =
  (...[params]: Params extends undefined ? readonly [] : readonly [Params]) => string\<close>
\<close>

definition RouteFunc :: "AnyParams \<Rightarrow> func_ty" where
  "RouteFunc Params =
     Func (conditional (extends_undefined Params)
             (TReadonly (TTuple []))
             (TReadonly (TTuple [ty_of Params])))
          TString"

text \<open>
  RouteFunc at a union \<^verbatim>\<open>P1 | ... | Pn\<close> of the type arguments above, such as
  \<^verbatim>\<open>AnyRouteParams\<close> itself. \<^verbatim>\<open>Params\<close> stands bare in the condition, so the
  conditional type distributes over the members of the union: the rest type is the union of
  the rest types derived from the members, and \<^verbatim>\<open>never\<close> for the union of none.
\<close>

definition RouteFunc_union :: "AnyParams list \<Rightarrow> func_ty" where
  "RouteFunc_union Ps = Func (union_of (map (\<lambda>P. rest (RouteFunc P)) Ps)) TString"

text \<open>A call \<^verbatim>\<open>f(a1, ..., an)\<close> type-checks when the argument list has the rest type.\<close>

definition accepts :: "(string \<Rightarrow> val \<Rightarrow> bool) \<Rightarrow> func_ty \<Rightarrow> val list \<Rightarrow> bool" where
  "accepts ext f args = has_type ext (VArr args) (rest f)"

subsection \<open>\<^verbatim>\<open>OptionalParams\<close>\<close>

text \<open>An instantiation whose type argument does not satisfy its constraint is rejected.\<close>

datatype error = TS2344

text \<open>\<^verbatim>\<open>Params extends { [param in string]: string }\<close>, the constraint of OptionalParams.\<close>

fun extends_string_mapping :: "AnyRouteParams \<Rightarrow> bool" where
  "extends_string_mapping Any = True"
| "extends_string_mapping Undefined = False"
| "extends_string_mapping (Shape ps) = True"
| "extends_string_mapping Dynamic = True"

text \<open>
  \<^verbatim>\<open>Params[keyof Params] extends never ? undefined : Params\<close>, the right-hand side. For
  the checked type \<^verbatim>\<open>any\<close> both branches are taken, and the union of
  \<^verbatim>\<open>undefined\<close> with \<^verbatim>\<open>any\<close> is \<^verbatim>\<open>any\<close>.
\<close>

definition OptionalParams_rhs :: "AnyRouteParams \<Rightarrow> AnyRouteParams" where
  "OptionalParams_rhs Params =
     (case extends_never (index_keyof Params) of
        Yes \<Rightarrow> Undefined
      | No \<Rightarrow> Params
      | Both \<Rightarrow> Any)"

text \<open>
  \<^verbatim>\<open>type OptionalParams<Params extends { [param in string]: string }> =
  Params[keyof Params] extends never ? undefined : Params\<close>
\<close>

definition OptionalParams :: "AnyRouteParams \<Rightarrow> error + AnyRouteParams" where
  "OptionalParams Params =
     (if extends_string_mapping Params then Inr (OptionalParams_rhs Params) else Inl TS2344)"

subsection \<open>\<^verbatim>\<open>ParamKeys\<close>\<close>

text \<open>
  \<^verbatim>\<open>type ParamKeys<TParams extends AnyRouteParams> =
  keyof TParams extends never ? [] : (keyof TParams)[]\<close>
\<close>

definition ParamKeys :: "AnyRouteParams \<Rightarrow> ty" where
  "ParamKeys TParams =
     conditional (extends_never (keyof TParams)) (TTuple []) (TArray (keyof TParams))"

subsection \<open>\<^verbatim>\<open>ExternalRouteRef\<close>\<close>

text \<open>
  A type argument constrained by \<^verbatim>\<open>boolean\<close>: \<^verbatim>\<open>any\<close>,
  \<^verbatim>\<open>boolean\<close>, \<^verbatim>\<open>true\<close> or \<^verbatim>\<open>false\<close>.
\<close>

datatype AnyBoolean = BAny | BBoolean | BTrue | BFalse

fun ty_of_boolean :: "AnyBoolean \<Rightarrow> ty" where
  "ty_of_boolean BAny = TAny"
| "ty_of_boolean BBoolean = TBoolean"
| "ty_of_boolean BTrue = TBoolLit True"
| "ty_of_boolean BFalse = TBoolLit False"

text \<open>
  \<^verbatim>\<open>type ExternalRouteRef<Params extends AnyParams = any, Optional extends boolean = any> =
  { $$routeRefType: 'external'; params: ParamKeys<Params>; optional?: Optional }\<close>
\<close>

definition ExternalRouteRef :: "AnyParams \<Rightarrow> AnyBoolean \<Rightarrow> ty" where
  "ExternalRouteRef Params Optional =
     TObject
       [(''$$routeRefType'', False, TLit ''external''),
        (''params'', False, ParamKeys Params),
        (''optional'', True, ty_of_boolean Optional)]"

text \<open>The type with both arguments left to their defaults.\<close>

definition ExternalRouteRef_default :: ty where
  "ExternalRouteRef_default = ExternalRouteRef Any BAny"

subsection \<open>Reading objects\<close>

text \<open>\<open>property v k\<close> is the own property \<open>k\<close> of the object \<open>v\<close>, \<open>None\<close> when it has none.\<close>

definition property :: "val \<Rightarrow> string \<Rightarrow> val option" where
  "property v k = (case v of VObj i fs \<Rightarrow> map_of fs k | _ \<Rightarrow> None)"

definition is_object :: "val \<Rightarrow> bool" where
  "is_object v = (case v of VObj i fs \<Rightarrow> True | _ \<Rightarrow> False)"

text \<open>The object \<open>v\<close> as it is after \<^verbatim>\<open>delete v[k]\<close>.\<close>

definition without :: "string \<Rightarrow> val \<Rightarrow> val" where
  "without k v = (case v of VObj i fs \<Rightarrow> VObj i (filter (\<lambda>(k', x). k' \<noteq> k) fs) | _ \<Rightarrow> v)"

text \<open>The child nodes and the associated route references of a route-tree node.\<close>

definition children_of :: "val \<Rightarrow> val list" where
  "children_of v = (case property v ''children'' of Some (VArr cs) \<Rightarrow> cs | _ \<Rightarrow> [])"

definition routeRefs_of :: "val \<Rightarrow> val list" where
  "routeRefs_of v = (case property v ''routeRefs'' of Some (VSet rs) \<Rightarrow> rs | _ \<Rightarrow> [])"

lemma size_children_of:
  assumes "c \<in> set (children_of v)"
  shows "size c < size v"
proof (cases v)
  case (VObj i fs)
  show ?thesis
  proof (cases "map_of fs ''children''")
    case None
    with VObj assms show ?thesis by (simp add: children_of_def property_def)
  next
    case (Some x)
    with VObj assms obtain cs where x: "x = VArr cs" and cs: "c \<in> set cs"
      by (cases x) (simp_all add: children_of_def property_def)
    from Some x have "map_of fs ''children'' = Some (VArr cs)" by simp
    then have "size (VArr cs) < Suc (size_list (size_prod (\<lambda>_. 0) size) fs)"
      by (rule size_map_of)
    moreover from cs have "size c < Suc (size_list size cs)" by (rule size_mem)
    ultimately show ?thesis using VObj by simp
  qed
qed (use assms in \<open>simp_all add: children_of_def property_def\<close>)

text \<open>The nodes of the tree under \<open>v\<close>: the node itself, then those of each child in order.\<close>

function nodes :: "val \<Rightarrow> val list" where
  "nodes v = v # concat (map nodes (children_of v))"
  by pat_completeness auto
termination
  by (relation "measure size") (auto dest: size_children_of)

declare nodes.simps [simp del]

text \<open>
  Every child in the tree appears under exactly one parent: among the nodes of the tree,
  exactly one holds it in its \<^verbatim>\<open>children\<close>.
\<close>

definition owned :: "val \<Rightarrow> bool" where
  "owned t =
     list_all (\<lambda>c. length (filter (\<lambda>p. c \<in> set (children_of p)) (nodes t)) = 1)
       (concat (map children_of (nodes t)))"

subsection \<open>The process and the marker\<close>

text \<open>
  The state of the running process: the process-wide singletons by key, the identity of the
  next symbol to be created, and the objects the program has built, by identity.
\<close>

record state =
  globals :: "string \<rightharpoonup> val"
  unused_symbol :: nat
  objects :: "nat \<rightharpoonup> val"

text \<open>\<^verbatim>\<open>Symbol(description)\<close> creates a symbol that is equal to no other.\<close>

definition Symbol :: "string \<Rightarrow> state \<Rightarrow> val \<times> state" where
  "Symbol description st = (VSym (unused_symbol st), st\<lparr>unused_symbol := Suc (unused_symbol st)\<rparr>)"

text \<open>
  Modelled from the spec: \<^verbatim>\<open>getOrCreateGlobalSingleton\<close> is imported from
  \<^verbatim>\<open>@backstage/version-bridge\<close> and is not part of the file. The spec gives its
  contract: "return the same marker value for a given key across all callers in the process,
  creating it on first request", "first caller creates it, all callers thereafter observe the
  same value".
\<close>

definition getOrCreateGlobalSingleton :: "string \<Rightarrow> (state \<Rightarrow> val \<times> state) \<Rightarrow> state \<Rightarrow> val \<times> state" where
  "getOrCreateGlobalSingleton key supplier st =
     (case globals st key of
        Some v \<Rightarrow> (v, st)
      | None \<Rightarrow>
          (case supplier st of
             (v, st') \<Rightarrow> (v, st'\<lparr>globals := (globals st')(key \<mapsto> v)\<rparr>)))"

text \<open>
  \<^verbatim>\<open>export const routeRefType: unique symbol = getOrCreateGlobalSingleton<any>(
  'route-ref-type', () => Symbol('route-ref-type'))\<close>, evaluated once by every loaded copy of
  the module.
\<close>

definition routeRefType :: "state \<Rightarrow> val \<times> state" where
  "routeRefType = getOrCreateGlobalSingleton ''route-ref-type'' (Symbol ''route-ref-type'')"

text \<open>A run of accessor calls, each with its key and supplier.\<close>

fun calls :: "(string \<times> (state \<Rightarrow> val \<times> state)) list \<Rightarrow> state \<Rightarrow> state" where
  "calls [] st = st"
| "calls ((k, s) # ops) st = calls ops (snd (getOrCreateGlobalSingleton k s st))"

text \<open>A supplier that removes and replaces no registered singleton.\<close>

definition keeps_globals :: "(state \<Rightarrow> val \<times> state) \<Rightarrow> bool" where
  "keeps_globals s = (\<forall>st k v. globals st k = Some v \<longrightarrow> globals (snd (s st)) k = Some v)"

text \<open>How the hosting application treats a reference when it binds the routes.\<close>

datatype binding = Required | MayStayUnbound

text \<open>
  Modelled from the spec: binding a reference is done by the hosting application, outside the
  file. The spec's optional flag says "whether the hosting application may leave this reference
  unbound", and a descriptor whose flag is unset "defaults to required binding semantics".
\<close>

definition binding :: "val \<Rightarrow> binding" where
  "binding v = (case property v ''optional'' of Some (VBool True) \<Rightarrow> MayStayUnbound | _ \<Rightarrow> Required)"

subsection \<open>Example surroundings\<close>

text \<open>No type of the file's surroundings is in scope.\<close>

definition no_ext :: "string \<Rightarrow> val \<Rightarrow> bool" where
  "no_ext n v = False"

text \<open>Route references are objects; a React node here is \<^verbatim>\<open>null\<close> or a string.\<close>

definition example_ext :: "string \<Rightarrow> val \<Rightarrow> bool" where
  "example_ext n v =
     (if n = ''RouteRef'' then (case v of VObj i fs \<Rightarrow> True | _ \<Rightarrow> False)
      else if n = ''React.ReactNode'' then (case v of VNull \<Rightarrow> True | VStr s \<Rightarrow> True | _ \<Rightarrow> False)
      else False)"

text \<open>A route-tree node with the given identity, path, route references and children.\<close>

definition example_node :: "nat \<Rightarrow> string \<Rightarrow> val list \<Rightarrow> val list \<Rightarrow> val" where
  "example_node i p rs cs =
     VObj i [(''caseSensitive'', VBool False), (''children'', VArr cs), (''element'', VNull),
             (''path'', VStr p), (''routeRefs'', VSet rs)]"

text \<open>A process that has not yet loaded the module.\<close>

definition initial :: state where
  "initial = \<lparr>globals = Map.empty, unused_symbol = 0, objects = Map.empty\<rparr>"

section \<open>Properties\<close>

subsection \<open>Unions\<close>

lemma has_type_case_union:
  "has_type ext v (case us of [] \<Rightarrow> TNever | [t] \<Rightarrow> t | t # u # r \<Rightarrow> TUnion (t # u # r)) =
     list_ex (has_type ext v) us"
  by (auto split: list.splits)

lemma has_type_union_of: "has_type ext v (union_of ts) = list_ex (has_type ext v) ts"
  unfolding union_of_def has_type_case_union by (auto simp: list_ex_iff)

subsection \<open>The route function\<close>

lemma rest_RouteFunc_Undefined: "rest (RouteFunc Undefined) = TReadonly (TTuple [])"
  by (simp add: RouteFunc_def)

lemma rest_RouteFunc_Shape: "rest (RouteFunc (Shape ps)) = TReadonly (TTuple [ty_of (Shape ps)])"
  by (simp add: RouteFunc_def)

lemma rest_RouteFunc_Dynamic: "rest (RouteFunc Dynamic) = TReadonly (TTuple [ty_of Dynamic])"
  by (simp add: RouteFunc_def)

lemma has_type_empty_tuple: "has_type ext (VArr args) (TReadonly (TTuple [])) = (args = [])"
  by simp

lemma has_type_single_tuple:
  "has_type ext (VArr args) (TReadonly (TTuple [t])) =
     (case args of [a] \<Rightarrow> has_type ext a t | _ \<Rightarrow> False)"
  by (cases args) (auto split: list.splits)

text \<open>
  C8: for every parameter shape, the function type derived by RouteFunc returns
  \<^verbatim>\<open>string\<close>, whichever argument list it takes: the values of its return type are exactly
  the strings.
\<close>

theorem RouteFunc_returns_string:
  "returns (RouteFunc Params) = TString \<and>
   has_type ext v (returns (RouteFunc Params)) = (case v of VStr s \<Rightarrow> True | _ \<Rightarrow> False)"
  by (simp add: RouteFunc_def)

lemma rest_RouteFunc_Any:
  "rest (RouteFunc Any) = TUnion [TReadonly (TTuple []), TReadonly (TTuple [ty_of Any])]"
  by (simp add: RouteFunc_def union_of_def)

lemma accepts_RouteFunc_union:
  "accepts ext (RouteFunc_union Ps) args = list_ex (\<lambda>P. accepts ext (RouteFunc P) args) Ps"
  by (simp add: accepts_def RouteFunc_union_def has_type_union_of list_ex_iff)

text \<open>
  C1, as amended: the function type derived by RouteFunc takes the empty argument list and no
  other when the shape is \<^verbatim>\<open>undefined\<close>, and takes exactly the argument lists of one
  argument of the shape's type when the shape is an object type or the mapping over all
  strings. The test is \<^verbatim>\<open>Params extends undefined\<close>, not the number of keys: the
  object shape without keys takes one argument. At \<^verbatim>\<open>any\<close> it takes the empty
  argument list and every list of one argument, and at a union of shapes it takes the argument
  lists it takes at some member of the union.
\<close>

theorem RouteFunc_arity:
  "accepts ext (RouteFunc Params) args =
     (case Params of
        Undefined \<Rightarrow> args = []
      | Any \<Rightarrow> args = [] \<or> length args = 1
      | _ \<Rightarrow> (case args of [a] \<Rightarrow> has_type ext a (ty_of Params) | _ \<Rightarrow> False)) \<and>
   accepts ext (RouteFunc_union Ps) args = list_ex (\<lambda>P. accepts ext (RouteFunc P) args) Ps"
proof -
  have "accepts ext (RouteFunc Params) args =
     (case Params of
        Undefined \<Rightarrow> args = []
      | Any \<Rightarrow> args = [] \<or> length args = 1
      | _ \<Rightarrow> (case args of [a] \<Rightarrow> has_type ext a (ty_of Params) | _ \<Rightarrow> False))"
  proof (cases Params)
    case Any
    have "has_type ext (VArr args) (rest (RouteFunc Any)) = (args = [] \<or> length args = 1)"
      unfolding rest_RouteFunc_Any by (cases args) auto
    with Any show ?thesis by (simp add: accepts_def)
  next
    case Undefined
    then show ?thesis
      by (simp add: accepts_def rest_RouteFunc_Undefined has_type_empty_tuple)
  next
    case (Shape ps)
    then show ?thesis
      by (simp only: accepts_def rest_RouteFunc_Shape has_type_single_tuple) simp
  next
    case Dynamic
    then show ?thesis
      by (simp only: accepts_def rest_RouteFunc_Dynamic has_type_single_tuple) simp
  qed
  with accepts_RouteFunc_union show ?thesis by blast
qed

theorem RouteFunc_arity_witness:
  "accepts no_ext (RouteFunc (Shape [(''id'', PString)])) [VObj 0 [(''id'', VStr ''42'')]] \<and>
   \<not> accepts no_ext (RouteFunc (Shape [(''id'', PString)])) [] \<and>
   \<not> accepts no_ext (RouteFunc (Shape [(''id'', PString)])) [VStr ''42''] \<and>
   accepts no_ext (RouteFunc Undefined) [] \<and>
   \<not> accepts no_ext (RouteFunc Undefined) [VObj 0 []] \<and>
   accepts no_ext (RouteFunc (Shape [])) [VStr ''42''] \<and>
   accepts no_ext (RouteFunc (Shape [])) [VArr []] \<and>
   \<not> accepts no_ext (RouteFunc (Shape [])) [VUndefined] \<and>
   accepts no_ext (RouteFunc Any) [] \<and>
   accepts no_ext (RouteFunc Any) [VNum 1] \<and>
   \<not> accepts no_ext (RouteFunc Any) [VNum 1, VNum 2] \<and>
   accepts no_ext (RouteFunc_union [Dynamic, Undefined]) [] \<and>
   accepts no_ext (RouteFunc_union [Dynamic, Undefined]) [VObj 0 [(''id'', VStr ''42'')]] \<and>
   \<not> accepts no_ext (RouteFunc_union [Dynamic, Undefined]) [VObj 0 [(''id'', VNum 42)]] \<and>
   \<not> accepts no_ext (RouteFunc_union []) []"
  using RouteFunc_arity [of no_ext "Shape [(''id'', PString)]" "[VObj 0 [(''id'', VStr ''42'')]]" "[]"]
    RouteFunc_arity [of no_ext "Shape [(''id'', PString)]" "[]" "[]"]
    RouteFunc_arity [of no_ext "Shape [(''id'', PString)]" "[VStr ''42'']" "[]"]
    RouteFunc_arity [of no_ext Undefined "[]" "[Dynamic, Undefined]"]
    RouteFunc_arity [of no_ext Undefined "[VObj 0 []]" "[]"]
    RouteFunc_arity [of no_ext "Shape []" "[VStr ''42'']" "[]"]
    RouteFunc_arity [of no_ext "Shape []" "[VArr []]" "[]"]
    RouteFunc_arity [of no_ext "Shape []" "[VUndefined]" "[]"]
    RouteFunc_arity [of no_ext Any "[]" "[]"]
    RouteFunc_arity [of no_ext Any "[VNum 1]" "[]"]
    RouteFunc_arity [of no_ext Any "[VNum 1, VNum 2]" "[]"]
    RouteFunc_arity [of no_ext Dynamic "[VObj 0 [(''id'', VStr ''42'')]]" "[Dynamic, Undefined]"]
    RouteFunc_arity [of no_ext Dynamic "[VObj 0 [(''id'', VNum 42)]]" "[Dynamic, Undefined]"]
    RouteFunc_arity [of no_ext Undefined "[VObj 0 [(''id'', VNum 42)]]" "[]"]
    RouteFunc_arity [of no_ext Undefined "[VObj 0 [(''id'', VStr ''42'')]]" "[]"]
  by simp

text \<open>
  C1 as stated fails at the object shape without keys, \<^verbatim>\<open>{}\<close>: it has no keys, and the
  derived function type rejects the empty argument list and takes one argument.
\<close>

theorem RouteFunc_empty_shape_counterexample:
  "keyof (Shape []) = TNever \<and>
   \<not> accepts no_ext (RouteFunc (Shape [])) [] \<and>
   accepts no_ext (RouteFunc (Shape [])) [VObj 0 []]"
  by (simp add: union_of_def accepts_def RouteFunc_def)

text \<open>
  The shape without keys reaches the route function through OptionalParams, which turns it into
  \<^verbatim>\<open>undefined\<close>; the function type derived from that takes no argument.
\<close>

lemma RouteFunc_after_OptionalParams:
  "OptionalParams (Shape []) = Inr Undefined \<and>
   accepts ext (RouteFunc Undefined) args = (args = [])"
  by (simp add: OptionalParams_def OptionalParams_rhs_def union_of_def accepts_def RouteFunc_def)

subsection \<open>The key list\<close>

lemma case_union_never:
  "TNever \<notin> set us \<Longrightarrow>
   ((case us of [] \<Rightarrow> TNever | [t] \<Rightarrow> t | t # u # r \<Rightarrow> TUnion (t # u # r)) = TNever) = (us = [])"
  by (auto split: list.splits)

lemma case_union_any:
  "TAny \<notin> set us \<Longrightarrow>
   (case us of [] \<Rightarrow> TNever | [t] \<Rightarrow> t | t # u # r \<Rightarrow> TUnion (t # u # r)) \<noteq> TAny"
  by (auto split: list.splits)

lemma union_of_never_iff: "(union_of ts = TNever) = (\<forall>t \<in> set ts. t = TNever)"
proof -
  have "TNever \<notin> set (remdups (filter (\<lambda>t. t \<noteq> TNever) ts))" by simp
  then show ?thesis
    unfolding union_of_def by (subst case_union_never) (auto simp: filter_empty_conv)
qed

lemma union_of_not_any: "TAny \<notin> set ts \<Longrightarrow> union_of ts \<noteq> TAny"
  unfolding union_of_def by (rule case_union_any) simp

lemma extends_never_cases:
  "extends_never t = (if t = TAny then Both else if t = TNever then Yes else No)"
  by (cases t) simp_all

lemma keyof_Shape_never: "(keyof (Shape ps) = TNever) = (ps = [])"
  by (cases ps) (auto simp: union_of_never_iff case_prod_beta)

lemma keyof_Shape_not_any: "keyof (Shape ps) \<noteq> TAny"
  by (auto simp: case_prod_beta intro!: union_of_not_any)

lemma ParamKeys_Shape:
  "ParamKeys (Shape ps) = (if ps = [] then TTuple [] else TArray (keyof (Shape ps)))"
  by (simp add: ParamKeys_def extends_never_cases keyof_Shape_never keyof_Shape_not_any del: keyof.simps)

lemma has_type_keyof_Shape:
  "has_type ext x (keyof (Shape ps)) = (case x of VStr k \<Rightarrow> k \<in> fst ` set ps | _ \<Rightarrow> False)"
  by (cases x) (auto simp: has_type_union_of list_ex_iff image_iff case_prod_beta)

text \<open>
  C3, as amended: for the shape \<^verbatim>\<open>undefined\<close> the derived type ParamKeys is the
  empty tuple, whose only value is the empty list. For an object shape without keys it is the
  same; for an object shape with keys it is the array type over the shape's parameter names:
  its values are exactly the arrays, of any length and in any order, whose elements are
  parameter names of the shape. In particular \<^verbatim>\<open>["orgId", "repoId"]\<close> is a value
  of the type derived from \<^verbatim>\<open>{orgId: string, repoId: string}\<close>.
\<close>

theorem ParamKeys_values:
  "ParamKeys Undefined = TTuple [] \<and>
   has_type ext v (ParamKeys Undefined) = (v = VArr []) \<and>
   has_type ext v (ParamKeys (Shape ps)) =
     (case v of
        VArr xs \<Rightarrow>
          if ps = [] then xs = []
          else list_all (\<lambda>x. case x of VStr k \<Rightarrow> k \<in> fst ` set ps | _ \<Rightarrow> False) xs
      | _ \<Rightarrow> False) \<and>
   has_type ext (VArr [VStr ''orgId'', VStr ''repoId''])
     (ParamKeys (Shape [(''orgId'', PString), (''repoId'', PString)]))"
proof -
  have a: "ParamKeys Undefined = TTuple []" by (simp add: ParamKeys_def)
  have b: "has_type ext v (TTuple []) = (v = VArr [])" by (cases v) auto
  have c: "has_type ext v (ParamKeys (Shape ps)) =
     (case v of
        VArr xs \<Rightarrow>
          if ps = [] then xs = []
          else list_all (\<lambda>x. case x of VStr k \<Rightarrow> k \<in> fst ` set ps | _ \<Rightarrow> False) xs
      | _ \<Rightarrow> False)"
    by (cases v) (simp_all add: ParamKeys_Shape has_type_keyof_Shape del: keyof.simps)
  have d: "has_type ext (VArr [VStr ''orgId'', VStr ''repoId''])
     (ParamKeys (Shape [(''orgId'', PString), (''repoId'', PString)]))"
    by (simp add: ParamKeys_Shape has_type_keyof_Shape del: keyof.simps)
  from a b c d show ?thesis by (simp only:)
qed

text \<open>
  C3 as stated fails: the type derived from \<^verbatim>\<open>{orgId: string, repoId: string}\<close>
  also holds the names in the other order.
\<close>

theorem ParamKeys_order_counterexample:
  "has_type no_ext (VArr [VStr ''repoId'', VStr ''orgId''])
     (ParamKeys (Shape [(''orgId'', PString), (''repoId'', PString)])) \<and>
   VArr [VStr ''repoId'', VStr ''orgId''] \<noteq> VArr [VStr ''orgId'', VStr ''repoId'']"
  by (simp add: ParamKeys_def union_of_def)

subsection \<open>The optional parameters\<close>

lemma ty_of_pty_not_any: "TAny \<noteq> ty_of_pty t"
  by (cases t) simp_all

lemma index_keyof_Shape_not_any: "index_keyof (Shape ps) \<noteq> TAny"
  by (auto simp: case_prod_beta ty_of_pty_not_any intro!: union_of_not_any)

lemma OptionalParams_rhs_cases:
  "OptionalParams_rhs Params = (if index_keyof Params = TNever then Undefined else Params)"
proof (cases Params)
  case (Shape ps)
  then show ?thesis
    by (simp add: OptionalParams_rhs_def extends_never_cases index_keyof_Shape_not_any
        del: index_keyof.simps)
qed (simp_all add: OptionalParams_rhs_def)

lemma OptionalParams_rhs_idem:
  "OptionalParams_rhs (OptionalParams_rhs Params) = OptionalParams_rhs Params"
  by (simp add: OptionalParams_rhs_cases)

text \<open>
  C9, as amended: OptionalParams takes the shapes that satisfy its constraint, which excludes
  \<^verbatim>\<open>undefined\<close>. It sends every such shape whose value type over its keys is empty
  (the shape without keys among them) to \<^verbatim>\<open>undefined\<close> and every other to itself.
  Applied again to a result other than \<^verbatim>\<open>undefined\<close> it returns that result; the
  result \<^verbatim>\<open>undefined\<close> is rejected by the constraint. The right-hand side alone, as
  a function on all shapes, is idempotent.
\<close>

theorem OptionalParams_result:
  "Params \<noteq> Undefined \<Longrightarrow>
   OptionalParams Params = Inr (if index_keyof Params = TNever then Undefined else Params) \<and>
   (case OptionalParams Params of
      Inl e \<Rightarrow> False
    | Inr Q \<Rightarrow> if Q = Undefined then OptionalParams Q = Inl TS2344 else OptionalParams Q = Inr Q) \<and>
   OptionalParams_rhs (OptionalParams_rhs Params) = OptionalParams_rhs Params"
proof -
  assume p: "Params \<noteq> Undefined"
  then have c: "extends_string_mapping Params" by (cases Params) simp_all
  have a: "OptionalParams Params = Inr (if index_keyof Params = TNever then Undefined else Params)"
    using c by (simp add: OptionalParams_def OptionalParams_rhs_cases)
  have u: "OptionalParams Undefined = Inl TS2344" by (simp add: OptionalParams_def)
  have b: "(case OptionalParams Params of
      Inl e \<Rightarrow> False
    | Inr Q \<Rightarrow> if Q = Undefined then OptionalParams Q = Inl TS2344 else OptionalParams Q = Inr Q)"
    using a u p by simp
  from a b OptionalParams_rhs_idem show ?thesis by blast
qed

theorem OptionalParams_result_witness:
  "Shape [(''id'', PString)] \<noteq> Undefined \<and>
   OptionalParams (Shape [(''id'', PString)]) = Inr (Shape [(''id'', PString)]) \<and>
   Shape [(''id'', PNever)] \<noteq> Undefined \<and>
   OptionalParams (Shape [(''id'', PNever)]) = Inr Undefined \<and>
   Shape [] \<noteq> Undefined \<and>
   OptionalParams (Shape []) = Inr Undefined"
  using OptionalParams_result [of "Shape [(''id'', PString)]"]
    OptionalParams_result [of "Shape [(''id'', PNever)]"]
    OptionalParams_result [of "Shape []"]
  by (simp add: union_of_def)

text \<open>
  C9 as stated fails at the shape without keys: its image \<^verbatim>\<open>undefined\<close> cannot be
  passed to OptionalParams again.
\<close>

theorem OptionalParams_idempotent_counterexample:
  "OptionalParams (Shape []) = Inr Undefined \<and>
   OptionalParams Undefined = Inl TS2344 \<and>
   OptionalParams Undefined \<noteq> OptionalParams (Shape [])"
  by (simp add: OptionalParams_def OptionalParams_rhs_def union_of_def)

subsection \<open>The marker\<close>

lemma accessor_registers:
  "globals (snd (getOrCreateGlobalSingleton k f st)) k = Some (fst (getOrCreateGlobalSingleton k f st))"
  by (simp add: getOrCreateGlobalSingleton_def split: option.splits prod.splits)

lemma accessor_registered:
  "globals st k = Some v \<Longrightarrow> getOrCreateGlobalSingleton k g st = (v, st)"
  by (simp add: getOrCreateGlobalSingleton_def)

lemma accessor_keeps:
  "keeps_globals s \<Longrightarrow> globals st k = Some v \<Longrightarrow>
   globals (snd (getOrCreateGlobalSingleton k' s st)) k = Some v"
  by (auto simp: getOrCreateGlobalSingleton_def keeps_globals_def split: option.splits prod.splits
      dest!: spec [of _ st])

lemma calls_keep:
  "list_all (\<lambda>(k', s). keeps_globals s) ops \<Longrightarrow> globals st k = Some v \<Longrightarrow>
   globals (calls ops st) k = Some v"
proof (induction ops arbitrary: st)
  case Nil
  then show ?case by simp
next
  case (Cons op ops)
  obtain k' s where op: "op = (k', s)" by (cases op)
  with Cons.prems have "keeps_globals s" and rest: "list_all (\<lambda>(k', s). keeps_globals s) ops"
    by simp_all
  with Cons.prems have "globals (snd (getOrCreateGlobalSingleton k' s st)) k = Some v"
    by (simp add: accessor_keeps)
  with rest have "globals (calls ops (snd (getOrCreateGlobalSingleton k' s st))) k = Some v"
    by (rule Cons.IH)
  with op show ?case by simp
qed

lemma keeps_globals_Symbol: "keeps_globals (Symbol d)"
  by (simp add: keeps_globals_def Symbol_def)

text \<open>
  C2: a call of the accessor registers the value it returns under its key; a second call with
  the same key, whatever its supplier, returns that value and leaves the state as it is; and so
  does a call with the same key after any run of further accessor calls whose suppliers keep
  the registered singletons. Nothing removes a registered value.
\<close>

theorem singleton_same_value:
  "list_all (\<lambda>(k', s). keeps_globals s) ops \<Longrightarrow>
   globals (snd (getOrCreateGlobalSingleton k f st)) k = Some (fst (getOrCreateGlobalSingleton k f st)) \<and>
   getOrCreateGlobalSingleton k g (snd (getOrCreateGlobalSingleton k f st)) =
     (fst (getOrCreateGlobalSingleton k f st), snd (getOrCreateGlobalSingleton k f st)) \<and>
   fst (getOrCreateGlobalSingleton k g (calls ops (snd (getOrCreateGlobalSingleton k f st)))) =
     fst (getOrCreateGlobalSingleton k f st)"
proof -
  assume ops: "list_all (\<lambda>(k', s). keeps_globals s) ops"
  let ?v = "fst (getOrCreateGlobalSingleton k f st)"
  let ?st = "snd (getOrCreateGlobalSingleton k f st)"
  have a: "globals ?st k = Some ?v" by (rule accessor_registers)
  then have b: "getOrCreateGlobalSingleton k g ?st = (?v, ?st)" by (rule accessor_registered)
  from ops a have "globals (calls ops ?st) k = Some ?v" by (rule calls_keep)
  then have "getOrCreateGlobalSingleton k g (calls ops ?st) = (?v, calls ops ?st)"
    by (rule accessor_registered)
  then have c: "fst (getOrCreateGlobalSingleton k g (calls ops ?st)) = ?v" by simp
  from a b c show ?thesis by blast
qed

theorem singleton_same_value_witness:
  "list_all (\<lambda>(k', s). keeps_globals s) [(''other'', Symbol ''other'')] \<and>
   fst (routeRefType initial) = VSym 0 \<and>
   fst (routeRefType (calls [(''other'', Symbol ''other'')] (snd (routeRefType initial)))) = VSym 0 \<and>
   fst (getOrCreateGlobalSingleton ''other'' (Symbol ''other'') (snd (routeRefType initial))) = VSym 1"
proof -
  have h: "list_all (\<lambda>(k', s). keeps_globals s) [(''other'', Symbol ''other'')]"
    by (simp add: keeps_globals_Symbol)
  have v: "fst (routeRefType initial) = VSym 0"
    by (simp add: routeRefType_def getOrCreateGlobalSingleton_def Symbol_def initial_def)
  have o: "fst (getOrCreateGlobalSingleton ''other'' (Symbol ''other'') (snd (routeRefType initial))) = VSym 1"
    by (simp add: routeRefType_def getOrCreateGlobalSingleton_def Symbol_def initial_def)
  from h v o
    singleton_same_value [OF h, of "''route-ref-type''" "Symbol ''route-ref-type''" initial
      "Symbol ''route-ref-type''"]
  show ?thesis by (simp add: routeRefType_def)
qed

text \<open>
  C7, as amended: RouteFunc and ParamKeys are functions of the type argument alone and touch no
  state. Evaluating \<^verbatim>\<open>routeRefType\<close> is deterministic in the state of the process.
  Where the marker is registered it returns the marker and leaves the state unchanged; where it
  is not, it creates a fresh symbol and registers it, which changes the state.
\<close>

theorem routeRefType_effect:
  "(case globals st ''route-ref-type'' of
      Some m \<Rightarrow> routeRefType st = (m, st)
    | None \<Rightarrow>
        routeRefType st =
          (VSym (unused_symbol st),
           st\<lparr>unused_symbol := Suc (unused_symbol st),
              globals := (globals st)(''route-ref-type'' \<mapsto> VSym (unused_symbol st))\<rparr>))"
  by (simp add: routeRefType_def getOrCreateGlobalSingleton_def Symbol_def split: option.splits)

text \<open>
  C7 as stated fails at the first evaluation in a process: the state afterwards is not the
  state before.
\<close>

theorem routeRefType_first_call_counterexample:
  "snd (routeRefType initial) \<noteq> initial \<and>
   globals initial ''route-ref-type'' = None \<and>
   globals (snd (routeRefType initial)) ''route-ref-type'' = Some (VSym 0)"
proof -
  have "unused_symbol (snd (routeRefType initial)) = 1"
    by (simp add: routeRefType_def getOrCreateGlobalSingleton_def Symbol_def initial_def)
  moreover have "unused_symbol initial = 0" by (simp add: initial_def)
  ultimately have "snd (routeRefType initial) \<noteq> initial" by auto
  then show ?thesis
    by (simp add: routeRefType_def getOrCreateGlobalSingleton_def Symbol_def initial_def)
qed

subsection \<open>The external route reference\<close>

lemma has_props_ExternalRouteRef:
  "has_type ext v (ExternalRouteRef Params Optional) =
     (property v ''$$routeRefType'' = Some (VStr ''external'') \<and>
      (case property v ''params'' of Some x \<Rightarrow> has_type ext x (ParamKeys Params) | None \<Rightarrow> False) \<and>
      (case v of VObj i fs \<Rightarrow> True | _ \<Rightarrow> False) \<and>
      (case property v ''optional'' of
         None \<Rightarrow> True
       | Some x \<Rightarrow> x = VUndefined \<or> has_type ext x (ty_of_boolean Optional)))"
  by (cases v) (auto simp: ExternalRouteRef_def property_def split: option.splits)

lemma has_type_ParamKeys:
  "has_type ext x (ParamKeys Params) =
     (case x of
        VArr ks \<Rightarrow> (keyof Params = TNever \<longrightarrow> ks = []) \<and> list_all (\<lambda>k. has_type ext k (keyof Params)) ks
      | _ \<Rightarrow> False)"
proof (cases Params)
  case (Shape ps)
  then show ?thesis
    by (cases x) (auto simp: ParamKeys_Shape keyof_Shape_never simp del: keyof.simps)
qed (cases x; simp add: ParamKeys_def union_of_def list_all_iff)+

lemma objects_routeRefType: "objects (snd (routeRefType st)) = objects st"
  by (simp add: routeRefType_def getOrCreateGlobalSingleton_def Symbol_def split: option.splits)

text \<open>
  C5: every value of the type ExternalRouteRef holds the tag \<^verbatim>\<open>'external'\<close> in
  \<^verbatim>\<open>$$routeRefType\<close>, an array of keys of the parameter shape in
  \<^verbatim>\<open>params\<close>, and in \<^verbatim>\<open>optional\<close> nothing, \<^verbatim>\<open>undefined\<close> or a
  value of the flag's type. The file has one operation that changes state, the evaluation of
  \<^verbatim>\<open>routeRefType\<close>; a descriptor the process holds is the same object, with the same
  properties, after it.
\<close>

theorem ExternalRouteRef_fields:
  "has_type ext v (ExternalRouteRef Params Optional) \<Longrightarrow> objects st i = Some v \<Longrightarrow>
   property v ''$$routeRefType'' = Some (VStr ''external'') \<and>
   (case property v ''params'' of
      Some (VArr ks) \<Rightarrow> list_all (\<lambda>k. has_type ext k (keyof Params)) ks
    | _ \<Rightarrow> False) \<and>
   (case property v ''optional'' of
      None \<Rightarrow> True
    | Some x \<Rightarrow> x = VUndefined \<or> has_type ext x (ty_of_boolean Optional)) \<and>
   objects (snd (routeRefType st)) i = Some v"
  by (auto simp: has_props_ExternalRouteRef has_type_ParamKeys objects_routeRefType
      split: option.splits val.splits)

theorem ExternalRouteRef_fields_witness:
  "has_type no_ext
     (VObj 7 [(''$$routeRefType'', VStr ''external''), (''params'', VArr [VStr ''id'']),
              (''optional'', VBool True)])
     (ExternalRouteRef (Shape [(''id'', PString)]) BTrue) \<and>
   objects
     (initial\<lparr>objects :=
        [7 \<mapsto> VObj 7 [(''$$routeRefType'', VStr ''external''), (''params'', VArr [VStr ''id'']),
                       (''optional'', VBool True)]]\<rparr>) 7 =
     Some (VObj 7 [(''$$routeRefType'', VStr ''external''), (''params'', VArr [VStr ''id'']),
                   (''optional'', VBool True)]) \<and>
   property
     (VObj 7 [(''$$routeRefType'', VStr ''external''), (''params'', VArr [VStr ''id'']),
              (''optional'', VBool True)]) ''$$routeRefType'' = Some (VStr ''external'') \<and>
   objects
     (snd (routeRefType
        (initial\<lparr>objects :=
           [7 \<mapsto> VObj 7 [(''$$routeRefType'', VStr ''external''), (''params'', VArr [VStr ''id'']),
                          (''optional'', VBool True)]]\<rparr>))) 7 =
     Some (VObj 7 [(''$$routeRefType'', VStr ''external''), (''params'', VArr [VStr ''id'']),
                   (''optional'', VBool True)])"
proof -
  let ?d = "VObj 7 [(''$$routeRefType'', VStr ''external''), (''params'', VArr [VStr ''id'']),
                    (''optional'', VBool True)]"
  have h: "has_type no_ext ?d (ExternalRouteRef (Shape [(''id'', PString)]) BTrue)"
    by (simp add: ExternalRouteRef_def ParamKeys_def union_of_def)
  have o: "objects (initial\<lparr>objects := [7 \<mapsto> ?d]\<rparr>) 7 = Some ?d"
    by simp
  from h o ExternalRouteRef_fields [OF h o] show ?thesis by simp
qed

text \<open>
  C4: a descriptor of the type derived from a shape without keys has the empty list in
  \<^verbatim>\<open>params\<close>; when its \<^verbatim>\<open>optional\<close> property is absent its binding is
  required, and the absent property is neither an explicit \<^verbatim>\<open>false\<close> nor an explicit
  \<^verbatim>\<open>true\<close>.
\<close>

theorem ExternalRouteRef_without_params:
  "keyof Params = TNever \<Longrightarrow> has_type ext v (ExternalRouteRef Params Optional) \<Longrightarrow>
   property v ''params'' = Some (VArr []) \<and>
   (property v ''optional'' = None \<longrightarrow>
      binding v = Required \<and>
      property v ''optional'' \<noteq> Some (VBool False) \<and>
      property v ''optional'' \<noteq> Some (VBool True))"
  by (auto simp: has_props_ExternalRouteRef has_type_ParamKeys binding_def
      split: option.splits val.splits)

theorem ExternalRouteRef_without_params_witness:
  "keyof Undefined = TNever \<and>
   has_type no_ext
     (VObj 1 [(''$$routeRefType'', VStr ''external''), (''params'', VArr [])])
     (ExternalRouteRef Undefined BBoolean) \<and>
   property (VObj 1 [(''$$routeRefType'', VStr ''external''), (''params'', VArr [])]) ''params'' =
     Some (VArr []) \<and>
   binding (VObj 1 [(''$$routeRefType'', VStr ''external''), (''params'', VArr [])]) = Required \<and>
   has_type no_ext
     (VObj 1 [(''$$routeRefType'', VStr ''external''), (''params'', VArr []),
              (''optional'', VBool False)])
     (ExternalRouteRef Undefined BBoolean) \<and>
   binding (VObj 1 [(''$$routeRefType'', VStr ''external''), (''params'', VArr []),
                    (''optional'', VBool False)]) = Required \<and>
   has_type no_ext
     (VObj 1 [(''$$routeRefType'', VStr ''external''), (''params'', VArr []),
              (''optional'', VBool True)])
     (ExternalRouteRef Undefined BBoolean) \<and>
   binding (VObj 1 [(''$$routeRefType'', VStr ''external''), (''params'', VArr []),
                    (''optional'', VBool True)]) = MayStayUnbound"
proof -
  have k: "keyof Undefined = TNever" by simp
  have h: "has_type no_ext
     (VObj 1 [(''$$routeRefType'', VStr ''external''), (''params'', VArr [])])
     (ExternalRouteRef Undefined BBoolean)"
    by (simp add: ExternalRouteRef_def ParamKeys_def)
  from k h ExternalRouteRef_without_params [OF k h]
  show ?thesis
    by (simp add: ExternalRouteRef_def ParamKeys_def binding_def property_def)
qed

subsection \<open>The route tree\<close>

lemma BackstageRouteObject_iff:
  "has_type ext v (TNamed ''BackstageRouteObject'') =
     (is_object v \<and>
      (case property v ''caseSensitive'' of Some (VBool b) \<Rightarrow> True | _ \<Rightarrow> False) \<and>
      (case property v ''children'' of
         None \<Rightarrow> True
       | Some VUndefined \<Rightarrow> True
       | Some (VArr cs) \<Rightarrow> list_all (\<lambda>c. has_type ext c (TNamed ''BackstageRouteObject'')) cs
       | _ \<Rightarrow> False) \<and>
      (case property v ''element'' of Some e \<Rightarrow> ext ''React.ReactNode'' e | None \<Rightarrow> False) \<and>
      (case property v ''path'' of Some (VStr p) \<Rightarrow> True | _ \<Rightarrow> False) \<and>
      (case property v ''routeRefs'' of
         Some (VSet rs) \<Rightarrow> distinct rs \<and> list_all (ext ''RouteRef'') rs
       | _ \<Rightarrow> False))"
proof (cases v)
  case (VObj i fs)
  have n: "interface ''React.ReactNode'' = None" "interface ''RouteRef'' = None"
    "interface ''BackstageRouteObject'' = Some BackstageRouteObject"
    by (simp_all add: interface_def)
  show ?thesis
    unfolding VObj is_object_def property_def
    by (simp add: n BackstageRouteObject_def split: option.splits val.splits)
qed (simp_all add: is_object_def interface_def BackstageRouteObject_def)

lemma is_object_without: "is_object (without k v) = is_object v"
  by (cases v) (simp_all add: is_object_def without_def)

lemma map_of_filter_key:
  "map_of (filter (\<lambda>(k', x). k' \<noteq> k) fs) k' = (if k' = k then None else map_of fs k')"
  by (induction fs) auto

lemma property_without:
  "property (without k v) k' = (if k' = k then None else property v k')"
  by (cases v) (simp_all add: property_def without_def map_of_filter_key)

text \<open>
  C10: every value of the interface BackstageRouteObject has \<^verbatim>\<open>caseSensitive\<close> (a
  boolean), \<^verbatim>\<open>element\<close>, \<^verbatim>\<open>path\<close> (a string) and
  \<^verbatim>\<open>routeRefs\<close> (a set of route references, none of them twice). It remains one
  when \<^verbatim>\<open>children\<close> is removed, and does not when any of the other four is.
\<close>

theorem BackstageRouteObject_fields:
  "has_type ext v (TNamed ''BackstageRouteObject'') \<Longrightarrow>
   (case property v ''caseSensitive'' of Some (VBool b) \<Rightarrow> True | _ \<Rightarrow> False) \<and>
   (case property v ''element'' of Some e \<Rightarrow> ext ''React.ReactNode'' e | None \<Rightarrow> False) \<and>
   (case property v ''path'' of Some (VStr p) \<Rightarrow> True | _ \<Rightarrow> False) \<and>
   (case property v ''routeRefs'' of
      Some (VSet rs) \<Rightarrow> distinct rs \<and> list_all (ext ''RouteRef'') rs
    | _ \<Rightarrow> False) \<and>
   has_type ext (without ''children'' v) (TNamed ''BackstageRouteObject'') \<and>
   \<not> has_type ext (without ''caseSensitive'' v) (TNamed ''BackstageRouteObject'') \<and>
   \<not> has_type ext (without ''element'' v) (TNamed ''BackstageRouteObject'') \<and>
   \<not> has_type ext (without ''path'' v) (TNamed ''BackstageRouteObject'') \<and>
   \<not> has_type ext (without ''routeRefs'' v) (TNamed ''BackstageRouteObject'')"
proof -
  assume h: "has_type ext v (TNamed ''BackstageRouteObject'')"
  note h' = BackstageRouteObject_iff [THEN iffD1, OF h]
  from h' have a: "is_object v"
    and b: "case property v ''caseSensitive'' of Some (VBool b) \<Rightarrow> True | _ \<Rightarrow> False"
    and c: "case property v ''element'' of Some e \<Rightarrow> ext ''React.ReactNode'' e | None \<Rightarrow> False"
    and d: "case property v ''path'' of Some (VStr p) \<Rightarrow> True | _ \<Rightarrow> False"
    and e: "case property v ''routeRefs'' of
              Some (VSet rs) \<Rightarrow> distinct rs \<and> list_all (ext ''RouteRef'') rs
            | _ \<Rightarrow> False"
    by blast+
  have f: "has_type ext (without ''children'' v) (TNamed ''BackstageRouteObject'')"
    using a b c d e by (subst BackstageRouteObject_iff) (simp add: property_without is_object_without)
  have g: "\<not> has_type ext (without ''caseSensitive'' v) (TNamed ''BackstageRouteObject'')"
    by (subst BackstageRouteObject_iff) (simp add: property_without)
  have i: "\<not> has_type ext (without ''element'' v) (TNamed ''BackstageRouteObject'')"
    by (subst BackstageRouteObject_iff) (simp add: property_without)
  have j: "\<not> has_type ext (without ''path'' v) (TNamed ''BackstageRouteObject'')"
    by (subst BackstageRouteObject_iff) (simp add: property_without)
  have k: "\<not> has_type ext (without ''routeRefs'' v) (TNamed ''BackstageRouteObject'')"
    by (subst BackstageRouteObject_iff) (simp add: property_without)
  from b c d e f g i j k show ?thesis by blast
qed

theorem BackstageRouteObject_fields_witness:
  "has_type example_ext
     (VObj 0 [(''caseSensitive'', VBool False), (''element'', VNull), (''path'', VStr ''catalog''),
              (''routeRefs'', VSet [VObj 10 []])])
     (TNamed ''BackstageRouteObject'') \<and>
   property
     (VObj 0 [(''caseSensitive'', VBool False), (''element'', VNull), (''path'', VStr ''catalog''),
              (''routeRefs'', VSet [VObj 10 []])]) ''children'' = None \<and>
   \<not> has_type example_ext
     (VObj 0 [(''caseSensitive'', VBool False), (''element'', VNull), (''routeRefs'', VSet [VObj 10 []])])
     (TNamed ''BackstageRouteObject'') \<and>
   \<not> has_type example_ext
     (VObj 0 [(''caseSensitive'', VBool False), (''element'', VNull), (''path'', VStr ''catalog''),
              (''routeRefs'', VSet [VObj 10 [], VObj 10 []])])
     (TNamed ''BackstageRouteObject'')"
proof -
  have h: "has_type example_ext
     (VObj 0 [(''caseSensitive'', VBool False), (''element'', VNull), (''path'', VStr ''catalog''),
              (''routeRefs'', VSet [VObj 10 []])])
     (TNamed ''BackstageRouteObject'')"
    by (simp add: interface_def BackstageRouteObject_def example_ext_def)
  from h BackstageRouteObject_fields [OF h]
  show ?thesis
    by (simp add: interface_def BackstageRouteObject_def example_ext_def property_def without_def)
qed

text \<open>
  C6: given two route references and a React node, there is a route tree in which one
  reference is associated with two different nodes, one node is associated with both
  references, and every child appears under exactly one parent.
\<close>

theorem routeRefs_many_to_many:
  "ext ''RouteRef'' r1 \<Longrightarrow> ext ''RouteRef'' r2 \<Longrightarrow> r1 \<noteq> r2 \<Longrightarrow> ext ''React.ReactNode'' e \<Longrightarrow>
   \<exists>t a b.
     has_type ext t (TNamed ''BackstageRouteObject'') \<and>
     a \<in> set (nodes t) \<and> b \<in> set (nodes t) \<and> a \<noteq> b \<and>
     r1 \<in> set (routeRefs_of a) \<and> r1 \<in> set (routeRefs_of b) \<and>
     1 < length (routeRefs_of a) \<and>
     owned t"
proof -
  assume r1: "ext ''RouteRef'' r1" and r2: "ext ''RouteRef'' r2" and ne: "r1 \<noteq> r2"
    and e: "ext ''React.ReactNode'' e"
  define a where "a = VObj 1 [(''caseSensitive'', VBool False), (''element'', e),
    (''path'', VStr ''a''), (''routeRefs'', VSet [r1, r2])]"
  define b where "b = VObj 2 [(''caseSensitive'', VBool False), (''element'', e),
    (''path'', VStr ''b''), (''routeRefs'', VSet [r1])]"
  define t where "t = VObj 0 [(''caseSensitive'', VBool False), (''children'', VArr [a, b]),
    (''element'', e), (''path'', VStr []), (''routeRefs'', VSet [])]"
  have ab: "a \<noteq> b" by (simp add: a_def b_def)
  have ca: "children_of a = []" and cb: "children_of b = []" and ct: "children_of t = [a, b]"
    by (simp_all add: children_of_def property_def a_def b_def t_def)
  have na: "nodes a = [a]" and nb: "nodes b = [b]"
    by (simp_all add: nodes.simps [of a] nodes.simps [of b] ca cb)
  have nt: "nodes t = [t, a, b]"
    by (simp add: nodes.simps [of t] ct na nb)
  have ta: "t \<noteq> a" and tb: "t \<noteq> b" by (simp_all add: a_def b_def t_def)
  have ha: "has_type ext a (TNamed ''BackstageRouteObject'')"
    using r1 r2 ne e
    by (subst BackstageRouteObject_iff) (simp add: a_def is_object_def property_def)
  have hb: "has_type ext b (TNamed ''BackstageRouteObject'')"
    using r1 e
    by (subst BackstageRouteObject_iff) (simp add: b_def is_object_def property_def)
  have ht: "has_type ext t (TNamed ''BackstageRouteObject'')"
    using ha hb e
    by (subst BackstageRouteObject_iff) (simp add: t_def is_object_def property_def)
  have ra: "routeRefs_of a = [r1, r2]" and rb: "routeRefs_of b = [r1]"
    by (simp_all add: routeRefs_of_def property_def a_def b_def)
  have ow: "owned t"
    using ab ta tb by (auto simp: owned_def nt ct ca cb)
  from ht nt ab ra rb ow show ?thesis
    by (intro exI [of _ t] exI [of _ a] exI [of _ b]) simp
qed

theorem routeRefs_many_to_many_witness:
  "example_ext ''RouteRef'' (VObj 10 []) \<and> example_ext ''RouteRef'' (VObj 11 []) \<and>
   VObj 10 [] \<noteq> VObj 11 [] \<and> example_ext ''React.ReactNode'' VNull \<and>
   (\<exists>t a b.
     has_type example_ext t (TNamed ''BackstageRouteObject'') \<and>
     a \<in> set (nodes t) \<and> b \<in> set (nodes t) \<and> a \<noteq> b \<and>
     VObj 10 [] \<in> set (routeRefs_of a) \<and> VObj 10 [] \<in> set (routeRefs_of b) \<and>
     1 < length (routeRefs_of a) \<and>
     owned t) \<and>
   has_type example_ext
     (example_node 0 [] []
        [example_node 1 ''a'' [VObj 10 [], VObj 11 []] [], example_node 2 ''b'' [VObj 10 []] []])
     (TNamed ''BackstageRouteObject'') \<and>
   owned
     (example_node 0 [] []
        [example_node 1 ''a'' [VObj 10 [], VObj 11 []] [], example_node 2 ''b'' [VObj 10 []] []]) \<and>
   \<not> owned
     (example_node 0 [] []
        [example_node 1 ''a'' [] [example_node 3 ''c'' [] []],
         example_node 2 ''b'' [] [example_node 3 ''c'' [] []]])"
proof -
  have 1: "example_ext ''RouteRef'' (VObj 10 [])" and 2: "example_ext ''RouteRef'' (VObj 11 [])"
    and 3: "VObj 10 [] \<noteq> VObj 11 []" and 4: "example_ext ''React.ReactNode'' VNull"
    by (simp_all add: example_ext_def)
  have 5: "has_type example_ext
     (example_node 0 [] []
        [example_node 1 ''a'' [VObj 10 [], VObj 11 []] [], example_node 2 ''b'' [VObj 10 []] []])
     (TNamed ''BackstageRouteObject'')"
    by (simp add: example_node_def interface_def BackstageRouteObject_def example_ext_def)
  have 6: "owned
     (example_node 0 [] []
        [example_node 1 ''a'' [VObj 10 [], VObj 11 []] [], example_node 2 ''b'' [VObj 10 []] []])"
    by (simp add: example_node_def owned_def nodes.simps children_of_def property_def)
  have 7: "\<not> owned
     (example_node 0 [] []
        [example_node 1 ''a'' [] [example_node 3 ''c'' [] []],
         example_node 2 ''b'' [] [example_node 3 ''c'' [] []]])"
    by (simp add: example_node_def owned_def nodes.simps children_of_def property_def)
  from 1 2 3 4 5 6 7 routeRefs_many_to_many [OF 1 2 3 4] show ?thesis by blast
qed

end
